theory Spec2Isabelle
  imports Main "HOL-Library.AList"
begin

section \<open>JavaScript values\<close>

text \<open>
  The helpers of this package work on untyped JavaScript values: option objects, header
  objects, auth descriptors, request data. They are embedded as one datatype. An object
  is the list of its own enumerable properties in insertion order; a lookup takes the
  first entry of a key, so a list with distinct keys stands for one object. Inherited
  properties are not modelled. A function value carries its source text (what string
  conversion gives) and the string a call without arguments returns. Host objects
  (blobs, buffers, streams, the form session, agents) are atoms with a kind and a
  payload. Numbers are the integers.
\<close>

datatype host = Blob string | Buffer | ArrayBuffer | Readable | Duplex | FormData | Agent

datatype jsval =
    JUndefined
  | JNull
  | JBool bool
  | JNum int
  | JStr string
  | JFun string string
  | JHost host string
  | JArr "jsval list"
  | JObj "(string \<times> jsval) list"

text \<open>The response of the transport: status code, status line text, body bytes.\<close>

record response =
  status :: int
  statusText :: string
  body :: string

text \<open>
  \<^verbatim>\<open>class HttpStatusError extends Error\<close> of httpstatuserror.js keeps the message, the
  status (as \<^verbatim>\<open>status\<close> and \<^verbatim>\<open>code\<close>) and the response. The other constructors
  are the built-in errors the code throws or runs into, and a rejection of the transport
  itself.
\<close>

datatype js_error =
    HttpStatusError string int response
  | TypeError string
  | Error string
  | SyntaxError string
  | Rejected string

type_synonym 'a result = "js_error + 'a"

definition bindE :: "'a result \<Rightarrow> ('a \<Rightarrow> 'b result) \<Rightarrow> 'b result" where
  "bindE m f = (case m of Inl e \<Rightarrow> Inl e | Inr x \<Rightarrow> f x)"

subsection \<open>Operators\<close>

fun truthy :: "jsval \<Rightarrow> bool" where
  "truthy JUndefined = False"
| "truthy JNull = False"
| "truthy (JBool b) = b"
| "truthy (JNum n) = (n \<noteq> 0)"
| "truthy (JStr s) = (s \<noteq> [])"
| "truthy _ = True"

fun typeof :: "jsval \<Rightarrow> string" where
  "typeof JUndefined = ''undefined''"
| "typeof JNull = ''object''"
| "typeof (JBool b) = ''boolean''"
| "typeof (JNum n) = ''number''"
| "typeof (JStr s) = ''string''"
| "typeof (JFun src r) = ''function''"
| "typeof (JHost h p) = ''object''"
| "typeof (JArr xs) = ''object''"
| "typeof (JObj kvs) = ''object''"

text \<open>\<^verbatim>\<open>v instanceof Object\<close>\<close>

fun instanceofObject :: "jsval \<Rightarrow> bool" where
  "instanceofObject (JObj _) = True"
| "instanceofObject (JArr _) = True"
| "instanceofObject (JFun _ _) = True"
| "instanceofObject (JHost _ _) = True"
| "instanceofObject _ = False"

fun string_of_nat :: "nat \<Rightarrow> string" where
  "string_of_nat n =
     (if n < 10 then [char_of (48 + n)]
      else string_of_nat (n div 10) @ [char_of (48 + n mod 10)])"

declare string_of_nat.simps [simp del]

definition string_of_int :: "int \<Rightarrow> string" where
  "string_of_int i = (if i < 0 then CHR ''-'' # string_of_nat (nat (- i)) else string_of_nat (nat i))"

fun join :: "string \<Rightarrow> string list \<Rightarrow> string" where
  "join sep [] = []"
| "join sep [x] = x"
| "join sep (x # y # ys) = x @ sep @ join sep (y # ys)"

text \<open>
  String conversion, as in \<^verbatim>\<open>baseurl + url\<close> and in template literals. An array joins
  its elements with commas, \<^verbatim>\<open>null\<close> and \<^verbatim>\<open>undefined\<close> elements as empty strings; a
  plain object and a host object give \<^verbatim>\<open>[object Object]\<close>.
\<close>

fun js_to_string :: "jsval \<Rightarrow> string" where
  "js_to_string JUndefined = ''undefined''"
| "js_to_string JNull = ''null''"
| "js_to_string (JBool b) = (if b then ''true'' else ''false'')"
| "js_to_string (JNum n) = string_of_int n"
| "js_to_string (JStr s) = s"
| "js_to_string (JFun src r) = src"
| "js_to_string (JHost h p) = ''[object Object]''"
| "js_to_string (JArr xs) =
     join '','' (map (\<lambda>x. if x = JUndefined \<or> x = JNull then [] else js_to_string x) xs)"
| "js_to_string (JObj kvs) = ''[object Object]''"

subsection \<open>Properties\<close>

text \<open>
  The code reads, writes and deletes properties by fixed names, none of them an index or
  \<^verbatim>\<open>length\<close>. Reading such a name gives the own property of a plain object, and
  \<^verbatim>\<open>undefined\<close> on every other value but \<^verbatim>\<open>undefined\<close> and \<^verbatim>\<open>null\<close>, where it throws.
\<close>

definition lookup :: "(string \<times> jsval) list \<Rightarrow> string \<Rightarrow> jsval" where
  "lookup kvs k = (case map_of kvs k of None \<Rightarrow> JUndefined | Some v \<Rightarrow> v)"

fun read_prop :: "jsval \<Rightarrow> string \<Rightarrow> jsval" where
  "read_prop (JObj kvs) k = lookup kvs k"
| "read_prop _ k = JUndefined"

fun get_prop :: "jsval \<Rightarrow> string \<Rightarrow> jsval result" where
  "get_prop JUndefined k = Inl (TypeError (''Cannot read properties of undefined (reading '' @ k @ '')''))"
| "get_prop JNull k = Inl (TypeError (''Cannot read properties of null (reading '' @ k @ '')''))"
| "get_prop v k = Inr (read_prop v k)"

text \<open>\<^verbatim>\<open>key in obj\<close> on own properties.\<close>

fun has :: "jsval \<Rightarrow> string \<Rightarrow> bool" where
  "has (JObj kvs) k = (map_of kvs k \<noteq> None)"
| "has _ k = False"

text \<open>
  \<^verbatim>\<open>obj[k] = v\<close> in strict mode: a type error on \<^verbatim>\<open>undefined\<close>, \<^verbatim>\<open>null\<close> and on a
  primitive; on a plain object the property keeps its place or is appended. Arrays,
  functions and host objects would take the property as well; the model has no place for
  it there and reports the write as an error of its own, so that no result is claimed
  for such a call.
\<close>

fun set_prop :: "jsval \<Rightarrow> string \<Rightarrow> jsval \<Rightarrow> jsval result" where
  "set_prop (JObj kvs) k v = Inr (JObj (AList.update k v kvs))"
| "set_prop JUndefined k v = Inl (TypeError (''Cannot set properties of undefined (setting '' @ k @ '')''))"
| "set_prop JNull k v = Inl (TypeError (''Cannot set properties of null (setting '' @ k @ '')''))"
| "set_prop (JBool b) k v = Inl (TypeError (''Cannot create property '' @ k @ '' on boolean''))"
| "set_prop (JNum n) k v = Inl (TypeError (''Cannot create property '' @ k @ '' on number''))"
| "set_prop (JStr s) k v = Inl (TypeError (''Cannot create property '' @ k @ '' on string''))"
| "set_prop _ k v = Inl (Error ''property of an array, function or host object: not modelled'')"

text \<open>\<^verbatim>\<open>delete obj[k]\<close>, on a value that is neither \<^verbatim>\<open>undefined\<close> nor \<^verbatim>\<open>null\<close>.\<close>

fun delete_prop :: "jsval \<Rightarrow> string \<Rightarrow> jsval" where
  "delete_prop (JObj kvs) k = JObj (AList.delete k kvs)"
| "delete_prop v k = v"

subsection \<open>Functions of the package @yeasoft/baseutils\<close>

text \<open>
  The package is a dependency and not part of the sources. \<^verbatim>\<open>getSpecifiedStr(v, d)\<close>
  is taken to return \<^verbatim>\<open>v\<close> when it is a string that is not empty and \<^verbatim>\<open>d\<close> otherwise
  (the code relies on it to replace the empty type of a blob), and \<^verbatim>\<open>getValidObj(v, d)\<close>
  to return \<^verbatim>\<open>v\<close> when it is an object and \<^verbatim>\<open>d\<close> otherwise.
\<close>

fun getSpecifiedStr :: "jsval \<Rightarrow> string \<Rightarrow> string" where
  "getSpecifiedStr (JStr s) d = (if s = [] then d else s)"
| "getSpecifiedStr _ d = d"

definition getValidObj :: "jsval \<Rightarrow> jsval \<Rightarrow> jsval" where
  "getValidObj v d = (if instanceofObject v then v else d)"

section \<open>The package deepmerge\<close>

text \<open>
  \<^verbatim>\<open>merge\<close> is the function of the package deepmerge, a dependency, called here with
  no options. Its defaults: when exactly one of target and source is an array the result
  is a copy of the source; two arrays are concatenated, target first; otherwise the
  result has the properties of the target and then, key by key, those of the source,
  where a key present in both whose source value is an object or array is merged
  recursively and any other source value replaces the target's. Every object of the
  result is a fresh copy; in a model of values a copy is the value. The package would
  copy a host object property by property; the model keeps it as it is.
\<close>

fun isMergeableObject :: "jsval \<Rightarrow> bool" where
  "isMergeableObject (JObj _) = True"
| "isMergeableObject (JArr _) = True"
| "isMergeableObject _ = False"

fun own :: "jsval \<Rightarrow> (string \<times> jsval) list" where
  "own (JObj kvs) = kvs"
| "own _ = []"

fun merge :: "jsval \<Rightarrow> jsval \<Rightarrow> jsval"
  and mergeObject :: "jsval \<Rightarrow> (string \<times> jsval) list \<Rightarrow> (string \<times> jsval) list \<Rightarrow> (string \<times> jsval) list"
where
  "merge target (JArr ys) = (case target of JArr xs \<Rightarrow> JArr (xs @ ys) | _ \<Rightarrow> JArr ys)"
| "merge target (JObj skvs) =
     (case target of JArr xs \<Rightarrow> JObj skvs | _ \<Rightarrow> JObj (mergeObject target skvs (own target)))"
| "merge target source = (case target of JArr xs \<Rightarrow> source | _ \<Rightarrow> JObj (own target))"
| "mergeObject target [] destination = destination"
| "mergeObject target ((key, sv) # rest) destination =
     mergeObject target rest
       (AList.update key
          (if has target key \<and> isMergeableObject sv then merge (read_prop target key) sv else sv)
          destination)"

section \<open>fetchhelper.js\<close>

record FetchHelper =
  defaults :: jsval
  auth :: jsval
  baseurl :: string
  onlysuccessful :: bool
  agent :: jsval

subsection \<open>prepareAuth\<close>

text \<open>
  \<^verbatim>\<open>Buffer.from(s).toString('base64')\<close>, on the bytes of the string.
\<close>

definition b64_char :: "nat \<Rightarrow> char" where
  "b64_char n = ''ABCDEFGHIJKLMNOPQRSTUVWXYZabcdefghijklmnopqrstuvwxyz0123456789+/'' ! (n mod 64)"

fun base64_bytes :: "nat list \<Rightarrow> string" where
  "base64_bytes (a # b # c # rest) =
     (let n = a * 65536 + b * 256 + c
      in b64_char (n div 262144) # b64_char (n div 4096) # b64_char (n div 64) # b64_char n
           # base64_bytes rest)"
| "base64_bytes [a, b] =
     (let n = a * 65536 + b * 256
      in [b64_char (n div 262144), b64_char (n div 4096), b64_char (n div 64), CHR ''=''])"
| "base64_bytes [a] =
     (let n = a * 65536
      in [b64_char (n div 262144), b64_char (n div 4096), CHR ''='', CHR ''=''])"
| "base64_bytes [] = []"

definition base64 :: "string \<Rightarrow> string" where
  "base64 s = base64_bytes (map of_char s)"

text \<open>
  The third test of \<^verbatim>\<open>prepareAuth\<close> reads \<^verbatim>\<open>typeof credentials\<close>: a free identifier,
  not the field of the descriptor. The module declares no such variable and Node has no
  global of that name, and \<^verbatim>\<open>typeof\<close> of an unbound identifier is \<^verbatim>\<open>'undefined'\<close>.
\<close>

definition global_credentials :: jsval where
  "global_credentials = JUndefined"

fun call0 :: "jsval \<Rightarrow> jsval result" where
  "call0 (JFun src r) = Inr (JStr r)"
| "call0 v = Inl (TypeError (js_to_string v @ '' is not a function''))"

definition prepareAuth :: "jsval \<Rightarrow> jsval result" where
  "prepareAuth a =
     bindE (get_prop a ''username'') (\<lambda>username.
       if truthy username \<and> truthy (read_prop a ''password'')
       then Inr (JStr (''Basic '' @ base64 (js_to_string username @ '':'' @ js_to_string (read_prop a ''password''))))
       else if typeof (read_prop a ''credentials'') = ''function''
       then bindE (call0 (read_prop a ''credentials'')) (\<lambda>c.
              Inr (JStr (getSpecifiedStr (read_prop a ''authtype'') ''Bearer'' @ '' '' @ js_to_string c)))
       else if typeof global_credentials = ''string''
       then Inr (JStr (getSpecifiedStr (read_prop a ''authtype'') ''Bearer'' @ '' '' @ js_to_string (read_prop a ''credentials'')))
       else Inr JUndefined)"

subsection \<open>Setters\<close>

definition setAuth :: "'a FetchHelper_scheme \<Rightarrow> jsval \<Rightarrow> 'a FetchHelper_scheme result" where
  "setAuth this a = bindE (prepareAuth a) (\<lambda>h. Inr (this\<lparr>auth := h\<rparr>))"

definition setBasicAuth :: "'a FetchHelper_scheme \<Rightarrow> jsval \<Rightarrow> jsval \<Rightarrow> 'a FetchHelper_scheme result" where
  "setBasicAuth this username password =
     bindE (prepareAuth (JObj [(''username'', username), (''password'', password)])) (\<lambda>h.
       Inr (this\<lparr>auth := h\<rparr>))"

definition setBaseUrl :: "'a FetchHelper_scheme \<Rightarrow> jsval \<Rightarrow> 'a FetchHelper_scheme" where
  "setBaseUrl this url = this\<lparr>baseurl := getSpecifiedStr url []\<rparr>"

definition setAgent :: "'a FetchHelper_scheme \<Rightarrow> jsval \<Rightarrow> 'a FetchHelper_scheme" where
  "setAgent this a = this\<lparr>agent := a\<rparr>"

text \<open>
  \<^verbatim>\<open>new ProxyAgent(...)\<close> of the package proxy-agent gives a host object; its payload
  here is the proxy address, and empty when the proxy comes from an object or from the
  environment.
\<close>

definition setProxy :: "'a FetchHelper_scheme \<Rightarrow> jsval \<Rightarrow> 'a FetchHelper_scheme" where
  "setProxy this proxy =
     (if (instanceofObject proxy \<or> typeof proxy = ''string'' \<or> proxy = JBool True) \<or> \<not> truthy (agent this)
      then (if instanceofObject proxy then this\<lparr>agent := JHost Agent []\<rparr>
            else if typeof proxy = ''string'' then this\<lparr>agent := JHost Agent (js_to_string proxy)\<rparr>
            else if proxy = JBool True then this\<lparr>agent := JHost Agent []\<rparr>
            else this)
      else this)"

definition setOnlySuccesful :: "'a FetchHelper_scheme \<Rightarrow> jsval \<Rightarrow> 'a FetchHelper_scheme" where
  "setOnlySuccesful this v = this\<lparr>onlysuccessful := truthy v\<rparr>"

subsection \<open>Internal methods\<close>

text \<open>
  \<^verbatim>\<open>_extractOptions(options, keylist)\<close> moves the listed keys out of \<^verbatim>\<open>options\<close>: it
  returns the extracted object and changes its argument, which the model returns as
  second component.
\<close>

fun extract_loop :: "string list \<Rightarrow> (string \<times> jsval) list \<Rightarrow> jsval \<Rightarrow> (string \<times> jsval) list \<times> jsval" where
  "extract_loop [] extracted options = (extracted, options)"
| "extract_loop (key # keys) extracted options =
     (if has options key
      then extract_loop keys (AList.update key (read_prop options key) extracted) (delete_prop options key)
      else extract_loop keys extracted options)"

definition internal_extractOptions :: "jsval \<Rightarrow> string list \<Rightarrow> jsval \<times> jsval" where
  "internal_extractOptions options keylist =
     (if instanceofObject options
      then (case extract_loop keylist [] options of (extracted, options1) \<Rightarrow> (JObj extracted, options1))
      else (JObj [], options))"

text \<open>\<^verbatim>\<open>obj[k1][k2] = v\<close>: the write goes to the object held at \<^verbatim>\<open>k1\<close>.\<close>

definition set_prop2 :: "jsval \<Rightarrow> string \<Rightarrow> string \<Rightarrow> jsval \<Rightarrow> jsval result" where
  "set_prop2 obj k1 k2 v =
     bindE (get_prop obj k1) (\<lambda>inner.
     bindE (set_prop inner k2 v) (\<lambda>inner1.
       Inr (case obj of JObj kvs \<Rightarrow> JObj (AList.update k1 inner1 kvs) | _ \<Rightarrow> obj)))"

definition internal_prepareOptions :: "'a FetchHelper_scheme \<Rightarrow> jsval \<Rightarrow> jsval result" where
  "internal_prepareOptions this options =
     (let result = merge (defaults this) (getValidObj options (JObj []))
      in bindE (get_prop result ''auth'') (\<lambda>ra.
         bindE (if instanceofObject ra then prepareAuth ra else Inr (auth this)) (\<lambda>a.
         let result1 = delete_prop result ''auth''
         in bindE (if truthy a then set_prop2 result1 ''headers'' ''Authorization'' a else Inr result1) (\<lambda>result2.
            if truthy (agent this) then set_prop result2 ''agent'' (agent this) else Inr result2))))"

text \<open>
  The transport is \<^verbatim>\<open>fetch\<close> of node-fetch: from the address and the options to a
  response, or a rejection. \<^verbatim>\<open>res.ok\<close> is its getter: the status is in the range
  200 to 299.
\<close>

type_synonym transport = "string \<Rightarrow> jsval \<Rightarrow> response result"

definition ok :: "response \<Rightarrow> bool" where
  "ok res = (200 \<le> status res \<and> status res < 300)"

definition internal_fetch ::
  "transport \<Rightarrow> 'a FetchHelper_scheme \<Rightarrow> jsval \<Rightarrow> jsval \<Rightarrow> response result" where
  "internal_fetch tr this url options =
     bindE (get_prop options ''baseurl'') (\<lambda>ob.
       let base = getSpecifiedStr ob (baseurl this);
           oo = read_prop options ''onlysuccessful'';
           only = (if typeof oo = ''boolean'' then truthy oo else onlysuccessful this);
           options1 = delete_prop options ''baseurl'';
           options2 = delete_prop options1 ''onlysuccessful''
       in if only
          then bindE (tr (base @ js_to_string url) options2) (\<lambda>res.
                 if ok res then Inr res
                 else Inl (HttpStatusError (statusText res) (status res) res))
          else tr (base @ js_to_string url) options2)"

definition fetch :: "transport \<Rightarrow> 'a FetchHelper_scheme \<Rightarrow> jsval \<Rightarrow> jsval \<Rightarrow> response result" where
  "fetch tr this url options =
     bindE (internal_prepareOptions this options) (\<lambda>options1. internal_fetch tr this url options1)"

subsection \<open>Constructor\<close>

definition ensureObjMember :: "jsval \<Rightarrow> string \<Rightarrow> jsval \<Rightarrow> jsval result" where
  "ensureObjMember obj key defval =
     bindE (get_prop obj key) (\<lambda>v. if \<not> instanceofObject v then set_prop obj key defval else Inr obj)"

definition new_FetchHelper :: "jsval \<Rightarrow> FetchHelper result" where
  "new_FetchHelper options =
     bindE (ensureObjMember (merge (JObj []) (getValidObj options (JObj []))) ''headers'' (JObj [])) (\<lambda>d1.
     bindE (ensureObjMember d1 ''auth'' (JObj [])) (\<lambda>d2.
       case internal_extractOptions d2 [''auth'', ''onlysuccessful'', ''baseurl'', ''agent'', ''proxy''] of
         (fhoptions, d3) \<Rightarrow>
           bindE (setAuth \<lparr>defaults = d3, auth = JUndefined, baseurl = [], onlysuccessful = False,
                           agent = JUndefined\<rparr> (read_prop fhoptions ''auth'')) (\<lambda>this1.
             Inr (setProxy (setAgent (setBaseUrl (setOnlySuccesful this1 (read_prop fhoptions ''onlysuccessful''))
                                        (read_prop fhoptions ''baseurl''))
                              (read_prop fhoptions ''agent''))
                    (read_prop fhoptions ''proxy'')))))"

section \<open>JSON\<close>

text \<open>
  \<^verbatim>\<open>JSON.stringify\<close> and \<^verbatim>\<open>JSON.parse\<close> are built into the language. The text is
  written without white space; \<^verbatim>\<open>undefined\<close> and functions have no text: they are left
  out of an object and written \<^verbatim>\<open>null\<close> in an array. In a string the quote, the
  backslash and the characters below 32 are escaped. A host object is written \<^verbatim>\<open>{}\<close>.
\<close>

abbreviation DQ :: char where "DQ \<equiv> CHR 0x22"
abbreviation BS :: char where "BS \<equiv> CHR 0x5C"

definition hex_digit :: "nat \<Rightarrow> char" where
  "hex_digit n = ''0123456789abcdef'' ! (n mod 16)"

definition quote_char :: "char \<Rightarrow> string" where
  "quote_char c =
     (if c = DQ then [BS, DQ]
      else if c = BS then [BS, BS]
      else if c = CHR 0x08 then [BS, CHR ''b'']
      else if c = CHR 0x0C then [BS, CHR ''f'']
      else if c = CHR 0x0A then [BS, CHR ''n'']
      else if c = CHR 0x0D then [BS, CHR ''r'']
      else if c = CHR 0x09 then [BS, CHR ''t'']
      else if (of_char c :: nat) < 32
      then [BS, CHR ''u'', CHR ''0'', CHR ''0'', hex_digit (of_char c div 16), hex_digit (of_char c)]
      else [c])"

definition quote :: "string \<Rightarrow> string" where
  "quote s = DQ # concat (map quote_char s) @ [DQ]"

fun JSON_serialize :: "jsval \<Rightarrow> string option"
  and serialize_elements :: "jsval list \<Rightarrow> string list"
  and serialize_members :: "(string \<times> jsval) list \<Rightarrow> string list"
where
  "JSON_serialize JUndefined = None"
| "JSON_serialize (JFun src r) = None"
| "JSON_serialize JNull = Some ''null''"
| "JSON_serialize (JBool b) = Some (if b then ''true'' else ''false'')"
| "JSON_serialize (JNum n) = Some (string_of_int n)"
| "JSON_serialize (JStr s) = Some (quote s)"
| "JSON_serialize (JHost h p) = Some ''{}''"
| "JSON_serialize (JArr xs) = Some (''['' @ join '','' (serialize_elements xs) @ '']'')"
| "JSON_serialize (JObj kvs) = Some (''{'' @ join '','' (serialize_members kvs) @ ''}'')"
| "serialize_elements [] = []"
| "serialize_elements (x # xs) =
     (case JSON_serialize x of None \<Rightarrow> ''null'' | Some t \<Rightarrow> t) # serialize_elements xs"
| "serialize_members [] = []"
| "serialize_members ((k, v) # kvs) =
     (case JSON_serialize v of
        None \<Rightarrow> serialize_members kvs
      | Some t \<Rightarrow> (quote k @ '':'' @ t) # serialize_members kvs)"

definition JSON_stringify :: "jsval \<Rightarrow> jsval" where
  "JSON_stringify v = (case JSON_serialize v of None \<Rightarrow> JUndefined | Some t \<Rightarrow> JStr t)"

text \<open>
  The parser follows the JSON grammar, white space included. Two kinds of text are valid
  JSON and outside this model of values: a number with a fraction or an exponent, and an
  escape \<^verbatim>\<open>\u\<close> above 255; they give an error of their own. The recursion
  into arrays and objects counts down a bound; \<^verbatim>\<open>JSON_parse\<close> starts it above the
  length of the text.
\<close>

definition is_ws :: "char \<Rightarrow> bool" where
  "is_ws c = (c = CHR '' '' \<or> c = CHR 0x09 \<or> c = CHR 0x0A \<or> c = CHR 0x0D)"

fun skip_ws :: "string \<Rightarrow> string" where
  "skip_ws [] = []"
| "skip_ws (c # s) = (if is_ws c then skip_ws s else c # s)"

definition is_digit :: "char \<Rightarrow> bool" where
  "is_digit c = (48 \<le> (of_char c :: nat) \<and> (of_char c :: nat) \<le> 57)"

definition hex_val :: "char \<Rightarrow> nat option" where
  "hex_val c =
     (let n = (of_char c :: nat)
      in if 48 \<le> n \<and> n \<le> 57 then Some (n - 48)
         else if 97 \<le> n \<and> n \<le> 102 then Some (n - 87)
         else if 65 \<le> n \<and> n \<le> 70 then Some (n - 55)
         else None)"

definition hex4 :: "char \<Rightarrow> char \<Rightarrow> char \<Rightarrow> char \<Rightarrow> nat option" where
  "hex4 a b c d =
     (case (hex_val a, hex_val b, hex_val c, hex_val d) of
        (Some x, Some y, Some z, Some w) \<Rightarrow> Some (x * 4096 + y * 256 + z * 16 + w)
      | _ \<Rightarrow> None)"

fun parse_chars :: "string \<Rightarrow> string \<Rightarrow> (string \<times> string) result"
  and parse_escape :: "string \<Rightarrow> string \<Rightarrow> (string \<times> string) result"
where
  "parse_chars [] acc = Inl (SyntaxError ''Unterminated string in JSON'')"
| "parse_chars (c # s) acc =
     (if c = DQ then Inr (acc, s)
      else if c = BS then parse_escape s acc
      else if (of_char c :: nat) < 32 then Inl (SyntaxError ''Bad control character in string literal in JSON'')
      else parse_chars s (acc @ [c]))"
| "parse_escape [] acc = Inl (SyntaxError ''Unterminated string in JSON'')"
| "parse_escape (e # s) acc =
     (if e = DQ then parse_chars s (acc @ [DQ])
      else if e = BS then parse_chars s (acc @ [BS])
      else if e = CHR ''/'' then parse_chars s (acc @ [CHR ''/''])
      else if e = CHR ''b'' then parse_chars s (acc @ [CHR 0x08])
      else if e = CHR ''f'' then parse_chars s (acc @ [CHR 0x0C])
      else if e = CHR ''n'' then parse_chars s (acc @ [CHR 0x0A])
      else if e = CHR ''r'' then parse_chars s (acc @ [CHR 0x0D])
      else if e = CHR ''t'' then parse_chars s (acc @ [CHR 0x09])
      else if e = CHR ''u'' then
        (case s of
           a # b # c # d # r \<Rightarrow>
             (case hex4 a b c d of
                None \<Rightarrow> Inl (SyntaxError ''Bad Unicode escape in JSON'')
              | Some n \<Rightarrow>
                  if n < 256 then parse_chars r (acc @ [char_of n])
                  else Inl (Error ''escape above 255: not modelled''))
         | _ \<Rightarrow> Inl (SyntaxError ''Bad Unicode escape in JSON''))
      else Inl (SyntaxError ''Bad escaped character in JSON''))"

fun digits_val :: "nat \<Rightarrow> string \<Rightarrow> nat" where
  "digits_val a [] = a"
| "digits_val a (c # s) = digits_val (10 * a + (of_char c - 48)) s"

definition parse_nat :: "string \<Rightarrow> (nat \<times> string) result" where
  "parse_nat s =
     (let ds = takeWhile is_digit s; r = dropWhile is_digit s
      in if ds = [] then Inl (SyntaxError ''No number after minus sign in JSON'')
         else if hd ds = CHR ''0'' \<and> tl ds \<noteq> [] then Inl (SyntaxError ''Unexpected number in JSON'')
         else if r \<noteq> [] \<and> (hd r = CHR ''.'' \<or> hd r = CHR ''e'' \<or> hd r = CHR ''E'')
         then Inl (Error ''fraction or exponent: not modelled'')
         else Inr (digits_val 0 ds, r))"

fun parse_value :: "nat \<Rightarrow> string \<Rightarrow> (jsval \<times> string) result"
  and parse_elements :: "nat \<Rightarrow> jsval list \<Rightarrow> string \<Rightarrow> (jsval \<times> string) result"
  and parse_members :: "nat \<Rightarrow> (string \<times> jsval) list \<Rightarrow> string \<Rightarrow> (jsval \<times> string) result"
where
  "parse_value 0 s = Inl (Error ''nesting bound reached'')"
| "parse_value (Suc n) s =
     (case skip_ws s of
        [] \<Rightarrow> Inl (SyntaxError ''Unexpected end of JSON input'')
      | c # r \<Rightarrow>
          if c = CHR ''n'' then
            (if take 3 r = ''ull'' then Inr (JNull, drop 3 r) else Inl (SyntaxError ''Unexpected token in JSON''))
          else if c = CHR ''t'' then
            (if take 3 r = ''rue'' then Inr (JBool True, drop 3 r) else Inl (SyntaxError ''Unexpected token in JSON''))
          else if c = CHR ''f'' then
            (if take 4 r = ''alse'' then Inr (JBool False, drop 4 r) else Inl (SyntaxError ''Unexpected token in JSON''))
          else if c = DQ then bindE (parse_chars r []) (\<lambda>(str, r1). Inr (JStr str, r1))
          else if c = CHR ''['' then
            (case skip_ws r of
               [] \<Rightarrow> Inl (SyntaxError ''Unexpected end of JSON input'')
             | d # r1 \<Rightarrow> if d = CHR '']'' then Inr (JArr [], r1) else parse_elements n [] r)
          else if c = CHR ''{'' then
            (case skip_ws r of
               [] \<Rightarrow> Inl (SyntaxError ''Unexpected end of JSON input'')
             | d # r1 \<Rightarrow> if d = CHR ''}'' then Inr (JObj [], r1) else parse_members n [] r)
          else if c = CHR ''-'' then bindE (parse_nat r) (\<lambda>(m, r1). Inr (JNum (- int m), r1))
          else if is_digit c then bindE (parse_nat (c # r)) (\<lambda>(m, r1). Inr (JNum (int m), r1))
          else Inl (SyntaxError ''Unexpected token in JSON''))"
| "parse_elements 0 acc s = Inl (Error ''nesting bound reached'')"
| "parse_elements (Suc n) acc s =
     bindE (parse_value n s) (\<lambda>(v, r).
       case skip_ws r of
         [] \<Rightarrow> Inl (SyntaxError ''Unexpected end of JSON input'')
       | c # r1 \<Rightarrow>
           if c = CHR '','' then parse_elements n (acc @ [v]) r1
           else if c = CHR '']'' then Inr (JArr (acc @ [v]), r1)
           else Inl (SyntaxError ''Unexpected token in JSON''))"
| "parse_members 0 acc s = Inl (Error ''nesting bound reached'')"
| "parse_members (Suc n) acc s =
     (case skip_ws s of
        [] \<Rightarrow> Inl (SyntaxError ''Unexpected end of JSON input'')
      | q # r \<Rightarrow>
          if q = DQ then
            bindE (parse_chars r []) (\<lambda>(key, r1).
              case skip_ws r1 of
                [] \<Rightarrow> Inl (SyntaxError ''Unexpected end of JSON input'')
              | c # r2 \<Rightarrow>
                  if c = CHR '':'' then
                    bindE (parse_value n r2) (\<lambda>(v, r3).
                      case skip_ws r3 of
                        [] \<Rightarrow> Inl (SyntaxError ''Unexpected end of JSON input'')
                      | d # r4 \<Rightarrow>
                          if d = CHR '','' then parse_members n (AList.update key v acc) r4
                          else if d = CHR ''}'' then Inr (JObj (AList.update key v acc), r4)
                          else Inl (SyntaxError ''Unexpected token in JSON''))
                  else Inl (SyntaxError ''Unexpected token in JSON''))
          else Inl (SyntaxError ''Unexpected token in JSON''))"

text \<open>
  The values that JSON text denotes in this model: \<^verbatim>\<open>null\<close>, booleans, numbers, strings,
  arrays of such values, and objects of such values with each key once.
\<close>

fun json_value :: "jsval \<Rightarrow> bool" where
  "json_value JNull = True"
| "json_value (JBool b) = True"
| "json_value (JNum n) = True"
| "json_value (JStr s) = True"
| "json_value (JArr xs) = list_all json_value xs"
| "json_value (JObj kvs) = (distinct (map fst kvs) \<and> list_all json_value (map snd kvs))"
| "json_value _ = False"

text \<open>What may come after a value in JSON text: nothing, a comma or a closing bracket.\<close>

definition follow :: "string \<Rightarrow> bool" where
  "follow rest = (rest = [] \<or> hd rest = CHR '','' \<or> hd rest = CHR '']'' \<or> hd rest = CHR ''}'')"


definition JSON_parse :: "string \<Rightarrow> jsval result" where
  "JSON_parse s =
     bindE (parse_value (Suc (length s)) s) (\<lambda>(v, r).
       if skip_ws r = [] then Inr v else Inl (SyntaxError ''Unexpected non-whitespace character after JSON''))"

section \<open>The response methods of node-fetch\<close>

text \<open>
  \<^verbatim>\<open>res.json()\<close> parses the body; \<^verbatim>\<open>res.text()\<close> gives it as a string; the other
  three wrap its bytes in a host object.
\<close>

definition res_json :: "response \<Rightarrow> jsval result" where
  "res_json res = JSON_parse (body res)"

definition res_text :: "response \<Rightarrow> jsval result" where
  "res_text res = Inr (JStr (body res))"

definition res_blob :: "response \<Rightarrow> jsval result" where
  "res_blob res = Inr (JHost (Blob []) (body res))"

definition res_arrayBuffer :: "response \<Rightarrow> jsval result" where
  "res_arrayBuffer res = Inr (JHost ArrayBuffer (body res))"

definition res_buffer :: "response \<Rightarrow> jsval result" where
  "res_buffer res = Inr (JHost Buffer (body res))"

section \<open>requesthelper.js\<close>

text \<open>
  \<^verbatim>\<open>queryString.stringify(object, options)\<close> of the package query-string is a
  parameter of the model.
\<close>

type_synonym stringify = "jsval \<Rightarrow> jsval \<Rightarrow> string"

definition QUERY_OPTIONS :: "string list" where
  "QUERY_OPTIONS = [''strict'', ''encode'', ''sort'', ''arrayFormat'', ''arrayFormatSeparator'',
                    ''skipNull'', ''skipEmptyString'']"

record RequestHelper = FetchHelper +
  queryOptions :: jsval

definition new_RequestHelper :: "jsval \<Rightarrow> RequestHelper result" where
  "new_RequestHelper options =
     bindE (new_FetchHelper options) (\<lambda>base.
       case internal_extractOptions (defaults base) QUERY_OPTIONS of
         (extracted, d) \<Rightarrow>
           Inr \<lparr>defaults = d, auth = auth base, baseurl = baseurl base,
                onlysuccessful = onlysuccessful base, agent = agent base,
                queryOptions = extracted\<rparr>)"

text \<open>
  \<^verbatim>\<open>_prepareParams(options, params)\<close> returns the query string; it takes the query
  keys out of \<^verbatim>\<open>options\<close>, which is the second component here.
\<close>

definition internal_prepareParams ::
  "stringify \<Rightarrow> 'a RequestHelper_scheme \<Rightarrow> jsval \<Rightarrow> jsval \<Rightarrow> string \<times> jsval" where
  "internal_prepareParams qs this options params =
     (case internal_extractOptions options QUERY_OPTIONS of
        (extracted, options1) \<Rightarrow>
          (let queryOptions = merge (queryOptions this) extracted
           in if instanceofObject params
              then (let result = qs params queryOptions
                    in (if result \<noteq> [] then ''?'' @ result else [], options1))
              else ([], options1)))"

definition ensureContentType :: "jsval \<Rightarrow> jsval \<Rightarrow> jsval result" where
  "ensureContentType options defval =
     bindE (get_prop options ''headers'') (\<lambda>headers.
     bindE (get_prop headers ''Content-Type'') (\<lambda>ct.
       if ct = JUndefined
       then set_prop2 options ''headers'' ''Content-Type''
              (JStr (getSpecifiedStr defval ''application/octet-stream''))
       else Inr options))"

text \<open>\<^verbatim>\<open>s.split(c)\<close> with a separator of one character.\<close>

fun split :: "char \<Rightarrow> string \<Rightarrow> string list" where
  "split sep [] = [[]]"
| "split sep (c # s) =
     (if c = sep then [] # split sep s
      else (case split sep s of x # xs \<Rightarrow> (c # x) # xs | [] \<Rightarrow> [[c]]))"

text \<open>The loop of \<^verbatim>\<open>testJsonContentType\<close>: pop from the end until \<^verbatim>\<open>json\<close> is found.\<close>

fun pop_loop :: "string list \<Rightarrow> bool" where
  "pop_loop xs =
     (if xs = [] then False
      else if last xs = ''json'' then True
      else pop_loop (butlast xs))"

declare pop_loop.simps [simp del]

definition testJsonContentType :: "jsval \<Rightarrow> bool" where
  "testJsonContentType contentType =
     (if typeof contentType \<noteq> ''string'' then False
      else (let next = split (CHR ''/'') (js_to_string contentType)
            in if length next < 2 then False
               else pop_loop (split (CHR ''+'') (next ! 1))))"

definition internal_prepareBody ::
  "stringify \<Rightarrow> 'a RequestHelper_scheme \<Rightarrow> jsval \<Rightarrow> jsval \<Rightarrow> jsval result" where
  "internal_prepareBody qs this options data =
     (if data = JNull \<or> data = JUndefined then set_prop options ''body'' JNull
      else if typeof data = ''string'' then
        bindE (ensureContentType options (JStr ''text/plain'')) (\<lambda>options1. set_prop options1 ''body'' data)
      else (case data of
          JHost (Blob t) p \<Rightarrow>
            bindE (ensureContentType options (JStr t)) (\<lambda>options1. set_prop options1 ''body'' data)
        | JHost Buffer p \<Rightarrow>
            bindE (ensureContentType options JUndefined) (\<lambda>options1. set_prop options1 ''body'' data)
        | JHost ArrayBuffer p \<Rightarrow>
            bindE (ensureContentType options JUndefined) (\<lambda>options1. set_prop options1 ''body'' data)
        | JHost Readable p \<Rightarrow>
            bindE (ensureContentType options JUndefined) (\<lambda>options1. set_prop options1 ''body'' data)
        | JHost Duplex p \<Rightarrow>
            bindE (ensureContentType options JUndefined) (\<lambda>options1. set_prop options1 ''body'' data)
        | _ \<Rightarrow>
            if instanceofObject data then
              bindE (get_prop options ''headers'') (\<lambda>headers.
              bindE (get_prop headers ''Content-Type'') (\<lambda>ct.
                if ct = JUndefined then
                  bindE (set_prop2 options ''headers'' ''Content-Type'' (JStr ''application/json'')) (\<lambda>options1.
                    set_prop options1 ''body'' (JSON_stringify data))
                else if ct = JStr ''application/json'' then
                  set_prop options ''body'' (JSON_stringify data)
                else if ct = JStr ''application/x-www-form-urlencoded'' then
                  (case internal_extractOptions options QUERY_OPTIONS of
                     (extracted, options1) \<Rightarrow>
                       set_prop options1 ''body'' (JStr (qs data (merge (queryOptions this) extracted))))
                else if testJsonContentType ct then
                  set_prop options ''body'' (JSON_stringify data)
                else Inl (Error (''Invalid Content-Type '' @ js_to_string ct))))
            else Inl (TypeError (''Unsupported data type '' @ typeof data))))"

definition get ::
  "transport \<Rightarrow> stringify \<Rightarrow> 'a RequestHelper_scheme \<Rightarrow> jsval \<Rightarrow> jsval \<Rightarrow> jsval \<Rightarrow> response result" where
  "get tr qs this url params options =
     bindE (internal_prepareOptions this options) (\<lambda>options1.
     bindE (set_prop options1 ''method'' (JStr ''GET'')) (\<lambda>options2.
       case internal_prepareParams qs this options2 params of
         (query, options_q) \<Rightarrow> internal_fetch tr this (JStr (js_to_string url @ query)) options_q))"

definition getGetJson ::
  "transport \<Rightarrow> stringify \<Rightarrow> 'a RequestHelper_scheme \<Rightarrow> jsval \<Rightarrow> jsval \<Rightarrow> jsval \<Rightarrow> jsval result" where
  "getGetJson tr qs this url params options =
     bindE (internal_prepareOptions this options) (\<lambda>options1.
     bindE (set_prop options1 ''method'' (JStr ''GET'')) (\<lambda>options2.
     bindE (set_prop options2 ''onlysuccessful'' (JBool True)) (\<lambda>options3.
       case internal_prepareParams qs this options3 params of
         (query, options_q) \<Rightarrow> bindE (internal_fetch tr this (JStr (js_to_string url @ query)) options_q) res_json)))"

definition getGetText ::
  "transport \<Rightarrow> stringify \<Rightarrow> 'a RequestHelper_scheme \<Rightarrow> jsval \<Rightarrow> jsval \<Rightarrow> jsval \<Rightarrow> jsval result" where
  "getGetText tr qs this url params options =
     bindE (internal_prepareOptions this options) (\<lambda>options1.
     bindE (set_prop options1 ''method'' (JStr ''GET'')) (\<lambda>options2.
     bindE (set_prop options2 ''onlysuccessful'' (JBool True)) (\<lambda>options3.
       case internal_prepareParams qs this options3 params of
         (query, options_q) \<Rightarrow> bindE (internal_fetch tr this (JStr (js_to_string url @ query)) options_q) res_text)))"

definition getGetBlob ::
  "transport \<Rightarrow> stringify \<Rightarrow> 'a RequestHelper_scheme \<Rightarrow> jsval \<Rightarrow> jsval \<Rightarrow> jsval \<Rightarrow> jsval result" where
  "getGetBlob tr qs this url params options =
     bindE (internal_prepareOptions this options) (\<lambda>options1.
     bindE (set_prop options1 ''method'' (JStr ''GET'')) (\<lambda>options2.
     bindE (set_prop options2 ''onlysuccessful'' (JBool True)) (\<lambda>options3.
       case internal_prepareParams qs this options3 params of
         (query, options_q) \<Rightarrow> bindE (internal_fetch tr this (JStr (js_to_string url @ query)) options_q) res_blob)))"

definition getArrayBuffer ::
  "transport \<Rightarrow> stringify \<Rightarrow> 'a RequestHelper_scheme \<Rightarrow> jsval \<Rightarrow> jsval \<Rightarrow> jsval \<Rightarrow> jsval result" where
  "getArrayBuffer tr qs this url params options =
     bindE (internal_prepareOptions this options) (\<lambda>options1.
     bindE (set_prop options1 ''method'' (JStr ''GET'')) (\<lambda>options2.
     bindE (set_prop options2 ''onlysuccessful'' (JBool True)) (\<lambda>options3.
       case internal_prepareParams qs this options3 params of
         (query, options_q) \<Rightarrow> bindE (internal_fetch tr this (JStr (js_to_string url @ query)) options_q) res_arrayBuffer)))"

definition getBuffer ::
  "transport \<Rightarrow> stringify \<Rightarrow> 'a RequestHelper_scheme \<Rightarrow> jsval \<Rightarrow> jsval \<Rightarrow> jsval \<Rightarrow> jsval result" where
  "getBuffer tr qs this url params options =
     bindE (internal_prepareOptions this options) (\<lambda>options1.
     bindE (set_prop options1 ''method'' (JStr ''GET'')) (\<lambda>options2.
     bindE (set_prop options2 ''onlysuccessful'' (JBool True)) (\<lambda>options3.
       case internal_prepareParams qs this options3 params of
         (query, options_q) \<Rightarrow> bindE (internal_fetch tr this (JStr (js_to_string url @ query)) options_q) res_buffer)))"

definition post ::
  "transport \<Rightarrow> stringify \<Rightarrow> 'a RequestHelper_scheme \<Rightarrow> jsval \<Rightarrow> jsval \<Rightarrow> jsval \<Rightarrow> response result" where
  "post tr qs this url data options =
     bindE (internal_prepareOptions this options) (\<lambda>options1.
     bindE (internal_prepareBody qs this options1 data) (\<lambda>options2.
     bindE (set_prop options2 ''method'' (JStr ''POST'')) (\<lambda>options3.
       internal_fetch tr this url options3)))"

definition postGetJson ::
  "transport \<Rightarrow> stringify \<Rightarrow> 'a RequestHelper_scheme \<Rightarrow> jsval \<Rightarrow> jsval \<Rightarrow> jsval \<Rightarrow> jsval result" where
  "postGetJson tr qs this url data options =
     bindE (internal_prepareOptions this options) (\<lambda>options1.
     bindE (internal_prepareBody qs this options1 data) (\<lambda>options2.
     bindE (set_prop options2 ''method'' (JStr ''POST'')) (\<lambda>options3.
     bindE (set_prop options3 ''onlysuccessful'' (JBool True)) (\<lambda>options4.
       bindE (internal_fetch tr this url options4) res_json))))"

definition postGetText ::
  "transport \<Rightarrow> stringify \<Rightarrow> 'a RequestHelper_scheme \<Rightarrow> jsval \<Rightarrow> jsval \<Rightarrow> jsval \<Rightarrow> jsval result" where
  "postGetText tr qs this url data options =
     bindE (internal_prepareOptions this options) (\<lambda>options1.
     bindE (internal_prepareBody qs this options1 data) (\<lambda>options2.
     bindE (set_prop options2 ''method'' (JStr ''POST'')) (\<lambda>options3.
     bindE (set_prop options3 ''onlysuccessful'' (JBool True)) (\<lambda>options4.
       bindE (internal_fetch tr this url options4) res_text))))"

definition postGetBlob ::
  "transport \<Rightarrow> stringify \<Rightarrow> 'a RequestHelper_scheme \<Rightarrow> jsval \<Rightarrow> jsval \<Rightarrow> jsval \<Rightarrow> jsval result" where
  "postGetBlob tr qs this url data options =
     bindE (internal_prepareOptions this options) (\<lambda>options1.
     bindE (internal_prepareBody qs this options1 data) (\<lambda>options2.
     bindE (set_prop options2 ''method'' (JStr ''POST'')) (\<lambda>options3.
     bindE (set_prop options3 ''onlysuccessful'' (JBool True)) (\<lambda>options4.
       bindE (internal_fetch tr this url options4) res_blob))))"

definition postGetArrayBuffer ::
  "transport \<Rightarrow> stringify \<Rightarrow> 'a RequestHelper_scheme \<Rightarrow> jsval \<Rightarrow> jsval \<Rightarrow> jsval \<Rightarrow> jsval result" where
  "postGetArrayBuffer tr qs this url data options =
     bindE (internal_prepareOptions this options) (\<lambda>options1.
     bindE (internal_prepareBody qs this options1 data) (\<lambda>options2.
     bindE (set_prop options2 ''method'' (JStr ''POST'')) (\<lambda>options3.
     bindE (set_prop options3 ''onlysuccessful'' (JBool True)) (\<lambda>options4.
       bindE (internal_fetch tr this url options4) res_arrayBuffer))))"

definition postGetBuffer ::
  "transport \<Rightarrow> stringify \<Rightarrow> 'a RequestHelper_scheme \<Rightarrow> jsval \<Rightarrow> jsval \<Rightarrow> jsval \<Rightarrow> jsval result" where
  "postGetBuffer tr qs this url data options =
     bindE (internal_prepareOptions this options) (\<lambda>options1.
     bindE (internal_prepareBody qs this options1 data) (\<lambda>options2.
     bindE (set_prop options2 ''method'' (JStr ''POST'')) (\<lambda>options3.
     bindE (set_prop options3 ''onlysuccessful'' (JBool True)) (\<lambda>options4.
       bindE (internal_fetch tr this url options4) res_buffer))))"

section \<open>formhelper.js\<close>

definition FORM_OPTIONS :: "string list" where
  "FORM_OPTIONS = [''maxDataSize'', ''pauseStreams'']"

text \<open>
  The form session is an object of the package form-data: a host object, whose payload
  stands for the fields appended so far.
\<close>

record FormHelper = FetchHelper +
  formOptions :: jsval
  formData :: jsval

definition new_FormHelper :: "jsval \<Rightarrow> FormHelper result" where
  "new_FormHelper options =
     bindE (new_FetchHelper options) (\<lambda>base.
       case internal_extractOptions (defaults base) FORM_OPTIONS of
         (extracted, d) \<Rightarrow>
           Inr \<lparr>defaults = d, auth = auth base, baseurl = baseurl base,
                onlysuccessful = onlysuccessful base, agent = agent base,
                formOptions = extracted, formData = JHost FormData []\<rparr>)"

definition reset :: "'a FormHelper_scheme \<Rightarrow> 'a FormHelper_scheme" where
  "reset this = this\<lparr>formData := JHost FormData []\<rparr>"

definition FormHelper_post ::
  "transport \<Rightarrow> 'a FormHelper_scheme \<Rightarrow> jsval \<Rightarrow> jsval \<Rightarrow> response result" where
  "FormHelper_post tr this url options =
     bindE (internal_prepareOptions this options) (\<lambda>options1.
     bindE (set_prop options1 ''method'' (JStr ''POST'')) (\<lambda>options2.
     bindE (set_prop options2 ''body'' (formData this)) (\<lambda>options3.
       internal_fetch tr this url options3)))"

definition FormHelper_postGetJson ::
  "transport \<Rightarrow> 'a FormHelper_scheme \<Rightarrow> jsval \<Rightarrow> jsval \<Rightarrow> jsval result" where
  "FormHelper_postGetJson tr this url options =
     bindE (internal_prepareOptions this options) (\<lambda>options1.
     bindE (set_prop options1 ''method'' (JStr ''POST'')) (\<lambda>options2.
     bindE (set_prop2 options2 ''headers'' ''Accept'' (JStr ''application/json'')) (\<lambda>options3.
     bindE (set_prop options3 ''onlyok'' (JBool True)) (\<lambda>options4.
     bindE (set_prop options4 ''body'' (formData this)) (\<lambda>options5.
     bindE (internal_fetch tr this url options5) res_json)))))"

definition submit ::
  "transport \<Rightarrow> 'a FormHelper_scheme \<Rightarrow> jsval \<Rightarrow> jsval \<Rightarrow> response result" where
  "submit tr this url options = FormHelper_post tr this url options"

definition submitGetJson ::
  "transport \<Rightarrow> 'a FormHelper_scheme \<Rightarrow> jsval \<Rightarrow> jsval \<Rightarrow> jsval result" where
  "submitGetJson tr this url options = FormHelper_postGetJson tr this url options"

text \<open>
  The request methods that class \<^verbatim>\<open>RequestHelper\<close> defines, as a lookup by name: what
  \<^verbatim>\<open>helper[name]\<close> finds among them.
\<close>

datatype 'a request_method =
    Raw "transport \<Rightarrow> stringify \<Rightarrow> 'a RequestHelper_scheme \<Rightarrow> jsval \<Rightarrow> jsval \<Rightarrow> jsval \<Rightarrow> response result"
  | Decoding "transport \<Rightarrow> stringify \<Rightarrow> 'a RequestHelper_scheme \<Rightarrow> jsval \<Rightarrow> jsval \<Rightarrow> jsval \<Rightarrow> jsval result"

definition RequestHelper_method :: "string \<Rightarrow> 'a request_method option" where
  "RequestHelper_method name =
     (if name = ''get'' then Some (Raw get)
      else if name = ''getGetJson'' then Some (Decoding getGetJson)
      else if name = ''getGetText'' then Some (Decoding getGetText)
      else if name = ''getGetBlob'' then Some (Decoding getGetBlob)
      else if name = ''getArrayBuffer'' then Some (Decoding getArrayBuffer)
      else if name = ''getBuffer'' then Some (Decoding getBuffer)
      else if name = ''post'' then Some (Raw post)
      else if name = ''postGetJson'' then Some (Decoding postGetJson)
      else if name = ''postGetText'' then Some (Decoding postGetText)
      else if name = ''postGetBlob'' then Some (Decoding postGetBlob)
      else if name = ''postGetArrayBuffer'' then Some (Decoding postGetArrayBuffer)
      else if name = ''postGetBuffer'' then Some (Decoding postGetBuffer)
      else None)"

section \<open>Example instances\<close>

text \<open>A transport that answers every request with one response, and a query encoder.\<close>

definition respond :: "response \<Rightarrow> transport" where
  "respond res url options = Inr res"

definition no_query :: stringify where
  "no_query params options = []"


text \<open>The instances that the constructors build from no options.\<close>

definition plain_FetchHelper :: FetchHelper where
  "plain_FetchHelper =
     \<lparr>defaults = JObj [(''headers'', JObj [])], auth = JUndefined, baseurl = [],
      onlysuccessful = False, agent = JUndefined\<rparr>"

definition plain_RequestHelper :: RequestHelper where
  "plain_RequestHelper =
     \<lparr>defaults = JObj [(''headers'', JObj [])], auth = JUndefined, baseurl = [],
      onlysuccessful = False, agent = JUndefined, queryOptions = JObj []\<rparr>"

definition plain_FormHelper :: FormHelper where
  "plain_FormHelper =
     \<lparr>defaults = JObj [(''headers'', JObj [])], auth = JUndefined, baseurl = [],
      onlysuccessful = False, agent = JUndefined, formOptions = JObj [],
      formData = JHost FormData []\<rparr>"

section \<open>Properties\<close>

lemma new_FetchHelper_plain: "new_FetchHelper JUndefined = Inr plain_FetchHelper"
  by code_simp

lemma new_RequestHelper_plain: "new_RequestHelper JUndefined = Inr plain_RequestHelper"
  by code_simp

lemma new_FormHelper_plain: "new_FormHelper JUndefined = Inr plain_FormHelper"
  by code_simp

subsection \<open>Properties of objects\<close>


subsection \<open>The status gate\<close>

lemma internal_fetch_unfold:
  assumes "options \<noteq> JUndefined" and "options \<noteq> JNull"
  shows "internal_fetch tr this url options =
     (let effective = (case read_prop options ''onlysuccessful'' of JBool b \<Rightarrow> b | _ \<Rightarrow> onlysuccessful this);
          req = tr (getSpecifiedStr (read_prop options ''baseurl'') (baseurl this) @ js_to_string url)
                  (delete_prop (delete_prop options ''baseurl'') ''onlysuccessful'')
      in if effective
         then bindE req (\<lambda>res. if ok res then Inr res
                               else Inl (HttpStatusError (statusText res) (status res) res))
         else req)"
proof -
  have eff: "(if typeof v = ''boolean'' then truthy v else p) = (case v of JBool b \<Rightarrow> b | _ \<Rightarrow> p)" for v p
    by (cases v) simp_all
  from assms show ?thesis
    by (cases options) (simp_all add: internal_fetch_def bindE_def Let_def eff)
qed

text \<open>
  With the flag on, a response passes the gate exactly when its status is in the range 200
  to 299, and every other response becomes an \<^verbatim>\<open>HttpStatusError\<close> with the status text,
  the status and the response.
\<close>

lemma internal_fetch_gate:
  assumes "read_prop options ''onlysuccessful'' = JBool True"
  shows "internal_fetch (respond res) this url options =
     (if 200 \<le> status res \<and> status res < 300 then Inr res
      else Inl (HttpStatusError (statusText res) (status res) res))"
proof -
  from assms have "options \<noteq> JUndefined" and "options \<noteq> JNull" by auto
  then show ?thesis
    using assms by (simp add: internal_fetch_unfold respond_def bindE_def ok_def)
qed

text \<open>
  C1. The claim: under the only-successful flag a call fails with an \<^verbatim>\<open>HttpStatusError\<close>
  exactly for a status of 400 and above, and returns the response for every status below
  400. The code tests \<^verbatim>\<open>res.ok\<close>: a response with status 304 and the flag set in the
  options is turned into an \<^verbatim>\<open>HttpStatusError\<close> instead of being returned.
\<close>

theorem internal_fetch_rejects_304:
  "internal_fetch (respond \<lparr>status = 304, statusText = ''Not Modified'', body = []\<rparr>) plain_FetchHelper
     (JStr ''/items'') (JObj [(''onlysuccessful'', JBool True)])
   = Inl (HttpStatusError ''Not Modified'' 304 \<lparr>status = 304, statusText = ''Not Modified'', body = []\<rparr>)"
  by code_simp

text \<open>
  C9. The flag that \<^verbatim>\<open>_fetch\<close> applies is the value of \<^verbatim>\<open>options.onlysuccessful\<close> when
  that value is a boolean, and the persisted flag of the instance for every other value;
  with the flag the response goes through the gate, without it the call is the
  transport's.
\<close>

theorem fetch_effective_onlysuccessful:
  assumes "options \<noteq> JUndefined" and "options \<noteq> JNull"
  shows "internal_fetch tr this url options =
     (let effective = (case read_prop options ''onlysuccessful'' of JBool b \<Rightarrow> b | _ \<Rightarrow> onlysuccessful this);
          req = tr (getSpecifiedStr (read_prop options ''baseurl'') (baseurl this) @ js_to_string url)
                  (delete_prop (delete_prop options ''baseurl'') ''onlysuccessful'')
      in if effective
         then bindE req (\<lambda>res. if ok res then Inr res
                               else Inl (HttpStatusError (statusText res) (status res) res))
         else req)"
  using assms by (rule internal_fetch_unfold)

theorem fetch_effective_onlysuccessful_witness:
  "JObj [(''onlysuccessful'', JStr ''true'')] \<noteq> JUndefined \<and>
   JObj [(''onlysuccessful'', JStr ''true'')] \<noteq> JNull \<and>
   internal_fetch (respond \<lparr>status = 404, statusText = ''Not Found'', body = []\<rparr>) plain_FetchHelper
     (JStr ''/x'') (JObj [(''onlysuccessful'', JStr ''true'')])
   = Inr \<lparr>status = 404, statusText = ''Not Found'', body = []\<rparr> \<and>
   internal_fetch (respond \<lparr>status = 404, statusText = ''Not Found'', body = []\<rparr>) plain_FetchHelper
     (JStr ''/x'') (JObj [(''onlysuccessful'', JBool True)])
   = Inl (HttpStatusError ''Not Found'' 404 \<lparr>status = 404, statusText = ''Not Found'', body = []\<rparr>)"
  using fetch_effective_onlysuccessful
          [of "JObj [(''onlysuccessful'', JStr ''true'')]"
              "respond \<lparr>status = 404, statusText = ''Not Found'', body = []\<rparr>" plain_FetchHelper "JStr ''/x''"]
        fetch_effective_onlysuccessful
          [of "JObj [(''onlysuccessful'', JBool True)]"
              "respond \<lparr>status = 404, statusText = ''Not Found'', body = []\<rparr>" plain_FetchHelper "JStr ''/x''"]
  by (simp add: respond_def plain_FetchHelper_def lookup_def bindE_def ok_def)



subsection \<open>The auth resolver\<close>

lemma prepareAuth_basic: "prepareAuth (JObj [(''username'', JStr ''u''), (''password'', JStr ''p'')]) = Inr (JStr ''Basic dTpw'')"
  by (simp add: prepareAuth_def bindE_def lookup_def base64_def b64_char_def Let_def)

lemma prepareAuth_function:
  "prepareAuth (JObj [(''credentials'', JFun ''() => token'' ''abc''), (''authtype'', JStr ''Token'')]) = Inr (JStr ''Token abc'')"
  by (simp add: prepareAuth_def bindE_def lookup_def)

text \<open>
  C2. The claim: a descriptor whose \<^verbatim>\<open>credentials\<close> field is a string, with no pair of
  user name and password, gives the header \<^verbatim>\<open>authtype credentials\<close>. The third test of
  \<^verbatim>\<open>prepareAuth\<close> reads the free identifier \<^verbatim>\<open>credentials\<close> and never holds: the
  descriptor resolves to \<^verbatim>\<open>undefined\<close>, and the effective options of a call with it carry
  no \<^verbatim>\<open>Authorization\<close> header.
\<close>

theorem prepareAuth_string_credentials:
  "prepareAuth (JObj [(''credentials'', JStr ''secret''), (''authtype'', JStr ''Bearer'')]) = Inr JUndefined
   \<and> internal_prepareOptions plain_FetchHelper
       (JObj [(''auth'', JObj [(''credentials'', JStr ''secret''), (''authtype'', JStr ''Bearer'')])])
     = Inr (JObj [(''headers'', JObj [])])"
  by code_simp

subsection \<open>The form helper\<close>

text \<open>
  C4. The claim: \<^verbatim>\<open>FormHelper.postGetJson\<close> forces the only-successful gate, so that a
  response with a status of 400 or above fails with an \<^verbatim>\<open>HttpStatusError\<close> and is not
  decoded. The method sets the key \<^verbatim>\<open>onlyok\<close>, which \<^verbatim>\<open>_fetch\<close> does not read: on an
  instance with the flag off a response with status 404 is decoded and its value
  returned, where \<^verbatim>\<open>RequestHelper.postGetJson\<close> fails with the \<^verbatim>\<open>HttpStatusError\<close>.
\<close>

theorem FormHelper_postGetJson_decodes_404:
  "FormHelper_postGetJson (respond \<lparr>status = 404, statusText = ''Not Found'', body = ''{}''\<rparr>)
     plain_FormHelper (JStr ''/x'') JUndefined
   = Inr (JObj [])
   \<and> postGetJson (respond \<lparr>status = 404, statusText = ''Not Found'', body = ''{}''\<rparr>) no_query
       plain_RequestHelper (JStr ''/x'') JUndefined JUndefined
     = Inl (HttpStatusError ''Not Found'' 404 \<lparr>status = 404, statusText = ''Not Found'', body = ''{}''\<rparr>)"
  by code_simp

subsection \<open>The call surface\<close>

text \<open>
  C5. The claim: \<^verbatim>\<open>RequestHelper\<close> has a base call and decode variants for DELETE as for
  GET and POST. The class defines the methods for GET and POST only: none of the names
  that its declaration file lists for DELETE is a method.
\<close>

theorem RequestHelper_has_no_delete:
  "(RequestHelper_method ''delete'' :: unit request_method option) = None
   \<and> (RequestHelper_method ''deleteGetJson'' :: unit request_method option) = None
   \<and> (RequestHelper_method ''deleteGetText'' :: unit request_method option) = None
   \<and> (RequestHelper_method ''deleteGetBlob'' :: unit request_method option) = None
   \<and> (RequestHelper_method ''deleteGetArrayBuffer'' :: unit request_method option) = None
   \<and> (RequestHelper_method ''deleteGetBuffer'' :: unit request_method option) = None"
  by (simp add: RequestHelper_method_def)

subsection \<open>The options merger\<close>

lemma mergeObject_map_of:
  "distinct (map fst B) \<Longrightarrow>
   map_of (mergeObject t B dest) k =
     (case map_of B k of
        None \<Rightarrow> map_of dest k
      | Some sv \<Rightarrow> Some (if has t k \<and> isMergeableObject sv then merge (read_prop t k) sv else sv))"
proof (induction B arbitrary: dest)
  case Nil
  then show ?case by simp
next
  case (Cons p B)
  obtain k' sv where p: "p = (k', sv)" by (cases p)
  from Cons.prems have dB: "distinct (map fst B)" and notin: "k' \<notin> fst ` set B"
    by (auto simp: p)
  from notin have none: "map_of B k' = None"
    by (simp add: map_of_eq_None_iff)
  show ?case
    using Cons.IH [OF dB] none
    by (auto simp: p update_conv' split: option.splits)
qed

lemma lookup_mergeObject:
  "distinct (map fst B) \<Longrightarrow>
   lookup (mergeObject (JObj A) B A) k =
     (case map_of B k of
        None \<Rightarrow> lookup A k
      | Some sv \<Rightarrow> if map_of A k \<noteq> None \<and> isMergeableObject sv then merge (lookup A k) sv else sv)"
  by (simp add: lookup_def mergeObject_map_of split: option.splits)

lemma lookup_Some: "map_of A k = Some v \<Longrightarrow> lookup A k = v"
  by (simp add: lookup_def)



lemma prepareOptions_other_keys:
  assumes "internal_prepareOptions this options = Inr r"
    and "k \<noteq> ''auth''" and "k \<noteq> ''headers''" and "k \<noteq> ''agent''"
  shows "read_prop r k = read_prop (merge (defaults this) (getValidObj options (JObj []))) k"
proof -
  define R where "R = merge (defaults this) (getValidObj options (JObj []))"
  have del: "read_prop (delete_prop v ''auth'') k = read_prop v k" for v
    using assms(2) by (cases v) (simp_all add: lookup_def delete_conv')
  have set2: "set_prop2 v ''headers'' k2 x = Inr v' \<Longrightarrow> read_prop v' k = read_prop v k" for v v' k2 x
    using assms(3) by (cases v) (auto simp: set_prop2_def bindE_def lookup_def update_conv' split: sum.splits)
  have set1: "set_prop v ''agent'' x = Inr v' \<Longrightarrow> read_prop v' k = read_prop v k" for v v' x
    using assms(4) by (cases v) (auto simp: lookup_def update_conv')
  from assms(1) show ?thesis
    unfolding internal_prepareOptions_def Let_def R_def [symmetric]
    by (auto simp: bindE_def del split: sum.splits if_splits dest!: set2 set1)
qed



text \<open>
  C3. The claim: where the defaults and the overrides both hold an array at a key, the
  effective options hold the array of the overrides. \<^verbatim>\<open>merge\<close> is called without an
  \<^verbatim>\<open>arrayMerge\<close> option, and its default concatenates. As amended: at such a key, other
  than the three that \<^verbatim>\<open>_prepareOptions\<close> rewrites, the effective options hold the array
  of the defaults followed by the array of the overrides.
\<close>

theorem prepareOptions_arrays_concatenated:
  assumes "defaults this = JObj A" and "options = JObj B" and "distinct (map fst B)"
    and "map_of A k = Some (JArr xs)" and "map_of B k = Some (JArr ys)"
    and "k \<noteq> ''auth''" and "k \<noteq> ''headers''" and "k \<noteq> ''agent''"
    and "internal_prepareOptions this options = Inr r"
  shows "read_prop r k = JArr (xs @ ys)"
  using assms
  by (simp add: prepareOptions_other_keys getValidObj_def lookup_mergeObject lookup_Some)



text \<open>The options of C3 at defaults with \<^verbatim>\<open>tags: ['a']\<close> and overrides with \<^verbatim>\<open>tags: ['b']\<close>.\<close>

theorem prepareOptions_arrays_counterexample:
  "internal_prepareOptions
     \<lparr>defaults = JObj [(''headers'', JObj []), (''tags'', JArr [JStr ''a''])], auth = JUndefined,
      baseurl = [], onlysuccessful = False, agent = JUndefined\<rparr>
     (JObj [(''tags'', JArr [JStr ''b''])])
   = Inr (JObj [(''headers'', JObj []), (''tags'', JArr [JStr ''a'', JStr ''b''])])"
  by (simp add: internal_prepareOptions_def bindE_def getValidObj_def lookup_def)

theorem prepareOptions_arrays_concatenated_witness:
  "internal_prepareOptions
     \<lparr>defaults = JObj [(''headers'', JObj []), (''tags'', JArr [JStr ''a''])], auth = JUndefined,
      baseurl = [], onlysuccessful = False, agent = JUndefined\<rparr>
     (JObj [(''tags'', JArr [JStr ''b''])])
   = Inr (JObj [(''headers'', JObj []), (''tags'', JArr [JStr ''a'', JStr ''b''])])
   \<and> read_prop (JObj [(''headers'', JObj []), (''tags'', JArr [JStr ''a'', JStr ''b''])]) ''tags''
     = JArr ([JStr ''a''] @ [JStr ''b''])"
proof -
  have run: "internal_prepareOptions
     \<lparr>defaults = JObj [(''headers'', JObj []), (''tags'', JArr [JStr ''a''])], auth = JUndefined,
      baseurl = [], onlysuccessful = False, agent = JUndefined\<rparr>
     (JObj [(''tags'', JArr [JStr ''b''])])
   = Inr (JObj [(''headers'', JObj []), (''tags'', JArr [JStr ''a'', JStr ''b''])])"
    by (simp add: internal_prepareOptions_def bindE_def getValidObj_def lookup_def)
  show ?thesis
    using run prepareOptions_arrays_concatenated
      [where A = "[(''headers'', JObj []), (''tags'', JArr [JStr ''a''])]"
         and B = "[(''tags'', JArr [JStr ''b''])]" and k = "''tags''"
         and xs = "[JStr ''a'']" and ys = "[JStr ''b'']", OF _ _ _ _ _ _ _ _ run]
    by simp
qed



subsection \<open>JSON text\<close>
























lemma json_value_serialize: "json_value v \<Longrightarrow> \<exists>t. JSON_serialize v = Some t"
  by (cases v) simp_all



lemma follow_simps [simp]:
  "follow (CHR '','' # r)" "follow (CHR '']'' # r)" "follow (CHR ''}'' # r)" "follow []"
  by (simp_all add: follow_def)

lemma serialize_elements_clean:
  "\<forall>x \<in> set xs. json_value x \<Longrightarrow> serialize_elements xs = map (\<lambda>x. the (JSON_serialize x)) xs"
  by (induction xs) (auto dest: json_value_serialize)













end
